theory Spec2Isabelle
  imports Main
begin

section \<open>JavaScript values used by \<^verbatim>\<open>static/js/app.js\<close>\<close>

text \<open>
  Numbers are modelled as unbounded integers. The script only ever does integer arithmetic
  on epoch milliseconds, balances and streaks; for integers of magnitude below \<open>2^53\<close>
  JavaScript's doubles are exact, and \<^verbatim>\<open>Math.floor(a / b)\<close> for a positive
  integer divisor is the floor division \<open>a div b\<close> of HOL.
\<close>

definition Math_floor_div :: "int \<Rightarrow> int \<Rightarrow> int" where
  \<comment> \<open>\<^verbatim>\<open>Math.floor(a / b)\<close>\<close>
  "Math_floor_div a b = a div b"

definition js_rem :: "int \<Rightarrow> int \<Rightarrow> int" where
  \<comment> \<open>\<^verbatim>\<open>a % b\<close>: the remainder takes the sign of the dividend\<close>
  "js_rem a b = (if 0 \<le> a then a mod \<bar>b\<bar> else - ((- a) mod \<bar>b\<bar>))"

definition digit :: "nat \<Rightarrow> char" where
  "digit d = ''0123456789'' ! d"

fun digits :: "nat \<Rightarrow> string" where
  "digits n = (if n < 10 then [digit n] else digits (n div 10) @ [digit (n mod 10)])"

declare digits.simps [simp del]

definition toString :: "int \<Rightarrow> string" where
  \<comment> \<open>\<^verbatim>\<open>num.toString()\<close> and \<^verbatim>\<open>`${num}`\<close> for an integer\<close>
  "toString n = (if n < 0 then CHR ''-'' # digits (nat (- n)) else digits (nat n))"

definition template_string :: "string option \<Rightarrow> string" where
  \<comment> \<open>\<^verbatim>\<open>`${x}`\<close> and \<^verbatim>\<open>String(x)\<close> for a string or \<^verbatim>\<open>undefined\<close> (\<open>None\<close>)\<close>
  "template_string x = (case x of None \<Rightarrow> ''undefined'' | Some str \<Rightarrow> str)"

definition truthy :: "string option \<Rightarrow> bool" where
  \<comment> \<open>\<^verbatim>\<open>undefined\<close> and the empty string are falsy\<close>
  "truthy x = (case x of None \<Rightarrow> False | Some str \<Rightarrow> str \<noteq> [])"

datatype error = Error string | TypeError string | SyntaxError string

fun error_message :: "error \<Rightarrow> string" where
  "error_message (Error m) = m"
| "error_message (TypeError m) = m"
| "error_message (SyntaxError m) = m"

text \<open>
  The wording of an engine's own errors is engine specific; the two below are V8's.
  No result of this theory depends on the wording.
\<close>

definition undefined_toString :: error where
  "undefined_toString =
     TypeError (''Cannot read properties of undefined (reading '' @ [CHR 0x27] @ ''toString''
                @ [CHR 0x27] @ '')'')"

definition null_set_textContent :: error where
  "null_set_textContent =
     TypeError (''Cannot set properties of null (setting '' @ [CHR 0x27] @ ''textContent''
                @ [CHR 0x27] @ '')'')"


section \<open>The page: DOM elements, timers, console\<close>

text \<open>
  \<^verbatim>\<open>document.getElementById\<close> returns \<^verbatim>\<open>null\<close> for an element the page does
  not have, so every element is optional. A timer is recorded when \<^verbatim>\<open>setTimeout\<close>
  schedules it (delay in milliseconds and callback).
\<close>

record user =
  balance :: int
  daily_streak :: int
  last_daily_claim :: int

record button =
  disabled :: bool
  classList :: "string list"
  textContent :: string

datatype toast_type = success | error | info

record toast =
  toast_type :: toast_type
  toast_message :: string

datatype callback = CheckDailyBonus | HideToast

record page =
  userData :: "user option"
  toast_container :: "toast list option"
  nav_balance :: "string option"
  user_balance :: "string option"
  daily_streak_el :: "string option"
  recent_transactions :: "string option"
  claim_daily_btn :: "button option"
  timers :: "(nat \<times> callback) list"
  console :: "error list"

definition classList_add :: "string \<Rightarrow> string list \<Rightarrow> string list" where
  "classList_add c cl = (if c \<in> set cl then cl else cl @ [c])"


section \<open>Toasts, \<^verbatim>\<open>apiCall\<close>, number formatting\<close>

definition showToast :: "string \<Rightarrow> toast_type \<Rightarrow> page \<Rightarrow> page" where
  \<comment> \<open>the toast element is the fixed template filled with \<open>type\<close> and \<open>message\<close>\<close>
  "showToast message type s =
     (case toast_container s of
        None \<Rightarrow> s
      | Some container \<Rightarrow>
          s\<lparr>toast_container := Some (container @ [\<lparr>toast_type = type, toast_message = message\<rparr>]),
            timers := timers s @ [(3000, HideToast)]\<rparr>)"

text \<open>
  The network is the environment of \<^verbatim>\<open>apiCall\<close>: \<^verbatim>\<open>fetch\<close> rejects, or resolves
  to a response with its \<^verbatim>\<open>ok\<close> flag, whose \<^verbatim>\<open>json()\<close> rejects (the body is not
  JSON) or resolves to the parsed object. The endpoint, method and data only make up the
  request. A parsed body is an object whose \<^verbatim>\<open>message\<close> is a string or absent.
\<close>

record response =
  message :: "string option"

datatype 'a body = JsonRejected error | Json 'a

datatype 'a fetch_outcome = FetchRejected error | Response bool "'a body"

definition apiCall_try :: "('a response_scheme) fetch_outcome \<Rightarrow> error + 'a response_scheme" where
  \<comment> \<open>the \<^verbatim>\<open>try\<close> block: \<open>Inl\<close> is a throw\<close>
  "apiCall_try outcome =
     (case outcome of
        FetchRejected e \<Rightarrow> Inl e
      | Response ok b \<Rightarrow>
          (case b of
             JsonRejected e \<Rightarrow> Inl e
           | Json result \<Rightarrow>
               if \<not> ok
               then Inl (Error (if truthy (message result) then template_string (message result)
                                else ''Request failed''))
               else Inr result))"

definition apiCall ::
  "('a response_scheme) fetch_outcome \<Rightarrow> page \<Rightarrow> (error + 'a response_scheme) \<times> page" where
  \<comment> \<open>the \<^verbatim>\<open>catch\<close> block logs the error and throws it again\<close>
  "apiCall outcome s =
     (case apiCall_try outcome of
        Inl e \<Rightarrow> (Inl e, s\<lparr>console := console s @ [e]\<rparr>)
      | Inr result \<Rightarrow> (Inr result, s))"

definition is_digit :: "char \<Rightarrow> bool" where
  "is_digit c = (c \<in> set ''0123456789'')"

definition is_word :: "char \<Rightarrow> bool" where
  "is_word c =
     (c \<in> set ''abcdefghijklmnopqrstuvwxyzABCDEFGHIJKLMNOPQRSTUVWXYZ0123456789_'')"

text \<open>
  \<^verbatim>\<open>str.replace(/\B(?=(\d{3})+(?!\d))/g, ",")\<close>: the pattern matches the empty string
  at a position that is not a word boundary and is followed by a run of digits whose
  length is a positive multiple of three. The position is followed by a digit, so it is
  not a word boundary exactly when the character before it is a word character.
  The flag tells whether the previous character is one.
\<close>

fun replace_commas :: "bool \<Rightarrow> string \<Rightarrow> string" where
  "replace_commas w [] = []"
| "replace_commas w (c # cs) =
     (let k = length (takeWhile is_digit (c # cs))
      in (if w \<and> 0 < k \<and> k mod 3 = 0 then '','' else []) @ c # replace_commas (is_word c) cs)"

definition formatNumber :: "int \<Rightarrow> string" where
  "formatNumber num = replace_commas False (toString num)"

definition updateBalance :: "int option \<Rightarrow> page \<Rightarrow> error + page" where
  \<comment> \<open>\<^verbatim>\<open>formatNumber(undefined)\<close> throws, and only where an element is there to be set\<close>
  "updateBalance newBalance s =
     (case (nav_balance s, user_balance s) of
        (None, None) \<Rightarrow> Inr s
      | _ \<Rightarrow>
          (case newBalance of
             None \<Rightarrow> Inl undefined_toString
           | Some n \<Rightarrow>
               Inr (s\<lparr>nav_balance := map_option (\<lambda>_. formatNumber n) (nav_balance s),
                      user_balance := map_option (\<lambda>_. formatNumber n) (user_balance s)\<rparr>)))"


section \<open>Dashboard page: the daily bonus\<close>

definition ONE_DAY :: int where
  "ONE_DAY = 24 * 60 * 60 * 1000"

definition countdown_hours :: "int \<Rightarrow> int" where
  "countdown_hours timeLeft = Math_floor_div timeLeft (1000 * 60 * 60)"

definition countdown_minutes :: "int \<Rightarrow> int" where
  "countdown_minutes timeLeft = Math_floor_div (js_rem timeLeft (1000 * 60 * 60)) (1000 * 60)"

definition countdown_seconds :: "int \<Rightarrow> int" where
  "countdown_seconds timeLeft = Math_floor_div (js_rem timeLeft (1000 * 60)) 1000"

definition countdown_label :: "int \<Rightarrow> int \<Rightarrow> int \<Rightarrow> string" where
  \<comment> \<open>\<^verbatim>\<open>`${hours}h ${minutes}m ${seconds}s`\<close>\<close>
  "countdown_label hours minutes seconds =
     toString hours @ ''h '' @ toString minutes @ ''m '' @ toString seconds @ ''s''"

definition checkDailyBonus :: "int \<Rightarrow> page \<Rightarrow> page" where
  \<comment> \<open>\<open>now\<close> is what \<^verbatim>\<open>Date.now()\<close> reads when the function runs\<close>
  "checkDailyBonus now s =
     (case userData s of
        None \<Rightarrow> s
      | Some u \<Rightarrow>
          (case claim_daily_btn s of
             None \<Rightarrow> s
           | Some btn \<Rightarrow>
               (let lastClaim = last_daily_claim u in
                if lastClaim = 0 \<or> now - lastClaim \<ge> ONE_DAY
                then s\<lparr>claim_daily_btn :=
                         Some (btn\<lparr>disabled := False,
                                   classList := classList_add ''ready'' (classList btn),
                                   textContent := ''Claim Daily Bonus''\<rparr>)\<rparr>
                else
                  (let timeLeft = ONE_DAY - (now - lastClaim);
                       hours = countdown_hours timeLeft;
                       minutes = countdown_minutes timeLeft;
                       seconds = countdown_seconds timeLeft
                   in s\<lparr>claim_daily_btn :=
                         Some (btn\<lparr>disabled := True,
                                   textContent :=
                                     ''Next Bonus in '' @ countdown_label hours minutes seconds\<rparr>),
                        timers := timers s @ [(1000, CheckDailyBonus)]\<rparr>))))"

text \<open>
  The body of \<^verbatim>\<open>/user/claim-daily\<close>: \<^verbatim>\<open>{message, new_balance, streak}\<close>, each
  field possibly absent (\<^verbatim>\<open>undefined\<close>).
\<close>

record claim_response = response +
  new_balance :: "int option"
  streak :: "int option"

definition textContent_of :: "int option \<Rightarrow> string" where
  \<comment> \<open>the text an element shows after \<^verbatim>\<open>el.textContent = x\<close>; \<^verbatim>\<open>undefined\<close> clears it\<close>
  "textContent_of x = (case x of None \<Rightarrow> [] | Some n \<Rightarrow> toString n)"

text \<open>
  \<^verbatim>\<open>claimDailyBonus\<close> does nothing to the page before its \<^verbatim>\<open>await\<close>; what follows
  runs in one piece when the request settles, on the page \<open>s\<close> of that moment, with
  \<open>outcome\<close> what the network gave and \<open>now\<close> the clock then.
\<close>

definition claimDailyBonus :: "claim_response fetch_outcome \<Rightarrow> int \<Rightarrow> page \<Rightarrow> page" where
  "claimDailyBonus outcome now s =
     (case apiCall outcome s of
        (Inl e, s1) \<Rightarrow> showToast (error_message e) error s1
      | (Inr result, s1) \<Rightarrow>
          (let s2 = showToast (template_string (message result)) success s1 in
           case updateBalance (new_balance result) s2 of
             Inl e \<Rightarrow> showToast (error_message e) error s2
           | Inr s3 \<Rightarrow>
               (case daily_streak_el s3 of
                  None \<Rightarrow> showToast (error_message null_set_textContent) error s3
                | Some _ \<Rightarrow>
                    checkDailyBonus now
                      (s3\<lparr>daily_streak_el := Some (textContent_of (streak result))\<rparr>))))"


section \<open>Dashboard page: recent transactions\<close>












section \<open>What the page shows\<close>

text \<open>
  The two modes of the claim control, read off the button: \<open>CLAIMABLE\<close> is the control
  enabled, marked ready and labelled for claiming; \<open>COOLDOWN\<close> is the control disabled.
  \<open>shows_countdown\<close> reads the countdown off a disabled control.
\<close>

definition shows_CLAIMABLE :: "page \<Rightarrow> bool" where
  "shows_CLAIMABLE s =
     (case claim_daily_btn s of
        None \<Rightarrow> False
      | Some btn \<Rightarrow>
          \<not> disabled btn \<and> ''ready'' \<in> set (classList btn) \<and> textContent btn = ''Claim Daily Bonus'')"

definition shows_COOLDOWN :: "page \<Rightarrow> bool" where
  "shows_COOLDOWN s = (case claim_daily_btn s of None \<Rightarrow> False | Some btn \<Rightarrow> disabled btn)"

definition shows_countdown :: "int \<Rightarrow> int \<Rightarrow> int \<Rightarrow> page \<Rightarrow> bool" where
  "shows_countdown hours minutes seconds s =
     (case claim_daily_btn s of
        None \<Rightarrow> False
      | Some btn \<Rightarrow>
          disabled btn \<and> textContent btn = ''Next Bonus in '' @ countdown_label hours minutes seconds)"

definition shown_output :: "page \<Rightarrow> (bool \<times> string) option" where
  \<comment> \<open>mode and label of the control: whether it is disabled, and its text\<close>
  "shown_output s = map_option (\<lambda>btn. (disabled btn, textContent btn)) (claim_daily_btn s)"

definition pending_ticks :: "page \<Rightarrow> nat" where
  \<comment> \<open>how many re-evaluations of the daily bonus are scheduled\<close>
  "pending_ticks s = length (filter (\<lambda>t. snd t = CheckDailyBonus) (timers s))"

definition failing :: "'a fetch_outcome \<Rightarrow> bool" where
  \<comment> \<open>a transport failure or a response that is not ok\<close>
  "failing outcome = (case outcome of FetchRejected _ \<Rightarrow> True | Response ok _ \<Rightarrow> \<not> ok)"



section \<open>Example pages and responses\<close>

definition fresh_button :: button where
  "fresh_button = \<lparr>disabled = False, classList = [''btn''], textContent = ''Claim Daily Bonus''\<rparr>"

definition dashboard :: "int \<Rightarrow> page" where
  \<comment> \<open>a dashboard with every element, hydrated with the given time of the last claim\<close>
  "dashboard lastClaim =
     \<lparr>userData = Some \<lparr>balance = 1000, daily_streak = 3, last_daily_claim = lastClaim\<rparr>,
      toast_container = Some [],
      nav_balance = Some ''1,000'',
      user_balance = Some ''1,000'',
      daily_streak_el = Some ''3'',
      recent_transactions = Some [],
      claim_daily_btn = Some fresh_button,
      timers = [],
      console = []\<rparr>"

definition claim_succeeded :: "claim_response fetch_outcome" where
  "claim_succeeded =
     Response True
       (Json \<lparr>message = Some ''Daily bonus claimed!'', new_balance = Some 1500, streak = Some 4\<rparr>)"

definition claim_rejected :: "claim_response fetch_outcome" where
  "claim_rejected =
     Response False
       (Json \<lparr>message = Some ''Already claimed today'', new_balance = None, streak = None\<rparr>)"

definition no_body :: "claim_response fetch_outcome" where
  \<comment> \<open>a gateway's error page: not ok, and not JSON\<close>
  "no_body = Response False (JsonRejected (SyntaxError ''Unexpected token < in JSON at position 0''))"

definition ok_no_body :: "claim_response fetch_outcome" where
  \<comment> \<open>an ok response with an empty body, as a \<^verbatim>\<open>204 No Content\<close> has\<close>
  "ok_no_body = Response True (JsonRejected (SyntaxError ''Unexpected end of JSON input''))"




section \<open>The countdown arithmetic\<close>

lemma countdown_unfold:
  assumes "0 \<le> t"
  shows "countdown_hours t = t div 3600000"
    and "countdown_minutes t = (t mod 3600000) div 60000"
    and "countdown_seconds t = (t mod 60000) div 1000"
  using assms
  by (simp_all add: countdown_hours_def countdown_minutes_def countdown_seconds_def
      Math_floor_div_def js_rem_def)

lemma countdown_sum:
  fixes t :: int
  assumes "0 \<le> t"
  shows "countdown_hours t * 3600000 + countdown_minutes t * 60000 + countdown_seconds t * 1000
         = t - t mod 1000"
proof -
  have a: "t = 3600000 * (t div 3600000) + t mod 3600000"
    by simp
  have "(t mod 3600000) mod 60000 = t mod 60000"
    by (rule mod_mod_cancel) simp
  then have b: "t mod 3600000 = 60000 * ((t mod 3600000) div 60000) + t mod 60000"
    using mult_div_mod_eq [of 60000 "t mod 3600000"] by simp
  have "(t mod 60000) mod 1000 = t mod 1000"
    by (rule mod_mod_cancel) simp
  then have c: "t mod 60000 = 1000 * ((t mod 60000) div 1000) + t mod 1000"
    using mult_div_mod_eq [of 1000 "t mod 60000"] by simp
  show ?thesis
    unfolding countdown_unfold [OF assms] using a b c by linarith
qed

lemma countdown_nonneg:
  assumes "0 \<le> t"
  shows "0 \<le> countdown_hours t \<and> 0 \<le> countdown_minutes t \<and> 0 \<le> countdown_seconds t"
  unfolding countdown_unfold [OF assms] using assms
  by (simp add: pos_imp_zdiv_nonneg_iff)

lemma div_upper:
  fixes x :: int
  assumes "0 < b" and "x < k * b"
  shows "x div b < k"
proof -
  have "b * (x div b) + x mod b = x"
    by simp
  moreover have "0 \<le> x mod b"
    using assms(1) by simp
  ultimately have "b * (x div b) \<le> x"
    by linarith
  then have "b * (x div b) < b * k"
    using assms(2) by (simp add: mult.commute)
  then show ?thesis
    using assms(1) by (simp add: mult_less_cancel_left_pos)
qed

lemma countdown_upper:
  assumes "0 \<le> t" and "t < 86400000"
  shows "countdown_hours t \<le> 23 \<and> countdown_minutes t \<le> 59 \<and> countdown_seconds t \<le> 59"
proof -
  have "t div 3600000 < 24"
    using assms by (intro div_upper) simp_all
  moreover have "(t mod 3600000) div 60000 < 60"
    by (intro div_upper) simp_all
  moreover have "(t mod 60000) div 1000 < 60"
    by (intro div_upper) simp_all
  ultimately show ?thesis
    unfolding countdown_unfold [OF assms(1)] by simp
qed

lemma checkDailyBonus_cooldown:
  assumes "userData s = Some u" and "claim_daily_btn s = Some btn"
    and "last_daily_claim u \<noteq> 0" and "now - last_daily_claim u < 86400000"
  shows "checkDailyBonus now s =
           s\<lparr>claim_daily_btn :=
               Some (btn\<lparr>disabled := True,
                         textContent := ''Next Bonus in '' @
                           countdown_label
                             (countdown_hours (86400000 - (now - last_daily_claim u)))
                             (countdown_minutes (86400000 - (now - last_daily_claim u)))
                             (countdown_seconds (86400000 - (now - last_daily_claim u)))\<rparr>),
             timers := timers s @ [(1000, CheckDailyBonus)]\<rparr>"
  using assms by (simp add: checkDailyBonus_def ONE_DAY_def Let_def)

lemma checkDailyBonus_claimable:
  assumes "userData s = Some u" and "claim_daily_btn s = Some btn"
    and "last_daily_claim u = 0 \<or> 86400000 \<le> now - last_daily_claim u"
  shows "checkDailyBonus now s =
           s\<lparr>claim_daily_btn :=
               Some (btn\<lparr>disabled := False,
                         classList := classList_add ''ready'' (classList btn),
                         textContent := ''Claim Daily Bonus''\<rparr>)\<rparr>"
  using assms by (auto simp add: checkDailyBonus_def ONE_DAY_def Let_def)

lemma checkDailyBonus_userData: "userData (checkDailyBonus now s) = userData s"
  by (simp add: checkDailyBonus_def Let_def split: option.splits)


section \<open>Facts about the example pages\<close>

lemma dashboard_userData:
  "userData (dashboard l) = Some \<lparr>balance = 1000, daily_streak = 3, last_daily_claim = l\<rparr>"
  by (simp add: dashboard_def)

lemma dashboard_btn: "claim_daily_btn (dashboard l) = Some fresh_button"
  by (simp add: dashboard_def)

lemma countdown_label_23_0_0: "countdown_label 23 0 0 = ''23h 0m 0s''"
  by (simp add: countdown_label_def toString_def digits.simps digit_def)

lemma one_hour_ago_output:
  "shown_output (checkDailyBonus 1700000000000 (dashboard 1699996400000))
     = Some (True, ''Next Bonus in 23h 0m 0s'')"
  by (simp add: dashboard_def checkDailyBonus_def shown_output_def ONE_DAY_def Let_def
      countdown_hours_def countdown_minutes_def countdown_seconds_def Math_floor_div_def
      js_rem_def countdown_label_23_0_0)


section \<open>Facts about toasts, requests and the claim\<close>

lemma showToast_fields:
  "userData (showToast m ty s) = userData s"
  "claim_daily_btn (showToast m ty s) = claim_daily_btn s"
  "nav_balance (showToast m ty s) = nav_balance s"
  "user_balance (showToast m ty s) = user_balance s"
  "daily_streak_el (showToast m ty s) = daily_streak_el s"
  "recent_transactions (showToast m ty s) = recent_transactions s"
  "console (showToast m ty s) = console s"
  by (simp_all add: showToast_def split: option.splits)

lemma showToast_timers:
  "timers (showToast m ty s) = timers s
   \<or> timers (showToast m ty s) = timers s @ [(3000, HideToast)]"
  by (simp add: showToast_def split: option.splits)

lemma showToast_pending_ticks: "pending_ticks (showToast m ty s) = pending_ticks s"
  by (simp add: showToast_def pending_ticks_def split: option.splits)

lemma apiCall_try_failing:
  assumes "failing outcome"
  shows "\<exists>e. apiCall_try outcome = Inl e"
  using assms
  by (auto simp add: failing_def apiCall_try_def split: fetch_outcome.splits body.splits)

lemma apiCall_throws:
  assumes "fst (apiCall outcome s) = Inl e"
  shows "apiCall outcome s = (Inl e, s\<lparr>console := console s @ [e]\<rparr>)"
  using assms by (simp add: apiCall_def split: sum.splits)

lemma claimDailyBonus_throws:
  assumes "fst (apiCall outcome s) = Inl e"
  shows "claimDailyBonus outcome now s
           = showToast (error_message e) error (s\<lparr>console := console s @ [e]\<rparr>)"
  by (simp add: claimDailyBonus_def apiCall_throws [OF assms])

lemma updateBalance_userData:
  "updateBalance b s = Inr s' \<Longrightarrow> userData s' = userData s"
  by (auto simp add: updateBalance_def split: option.splits prod.splits)

lemma claimDailyBonus_userData: "userData (claimDailyBonus outcome now s) = userData s"
  by (auto simp add: claimDailyBonus_def apiCall_def Let_def showToast_fields
      checkDailyBonus_userData dest: updateBalance_userData
      split: sum.splits option.splits)

lemma formatNumber_1500: "formatNumber 1500 = ''1,500''"
  by (simp add: formatNumber_def toString_def digits.simps digit_def is_digit_def is_word_def)

lemma claim_succeeded_run:
  "claimDailyBonus claim_succeeded 1700000000000 (dashboard 0)
     = (dashboard 0)
         \<lparr>toast_container :=
            Some [\<lparr>toast_type = success, toast_message = ''Daily bonus claimed!''\<rparr>],
          nav_balance := Some ''1,500'',
          user_balance := Some ''1,500'',
          daily_streak_el := Some ''4'',
          claim_daily_btn :=
            Some \<lparr>disabled = False, classList = [''btn'', ''ready''],
                  textContent = ''Claim Daily Bonus''\<rparr>,
          timers := [(3000, HideToast)]\<rparr>"
  by (simp add: claimDailyBonus_def claim_succeeded_def apiCall_def apiCall_try_def
      dashboard_def fresh_button_def showToast_def template_string_def updateBalance_def
      formatNumber_1500 textContent_of_def toString_def digits.simps digit_def
      checkDailyBonus_def classList_add_def)


section \<open>When the bonus is claimable\<close>

text \<open>
  C1. On a hydrated dashboard with its claim button, for every time \<open>now\<close>,
  \<^verbatim>\<open>checkDailyBonus\<close> leaves the control claimable (enabled, marked ready) if and only
  if the last claim is the sentinel \<open>0\<close> or lies at least 86 400 000 ms back. In
  particular the sentinel gives claimable whatever \<open>now\<close> is, and so does the boundary
  of exactly 86 400 000 ms.
\<close>

theorem checkDailyBonus_claimable_iff:
  assumes "userData s = Some u" and "claim_daily_btn s = Some btn"
  shows "(shows_CLAIMABLE (checkDailyBonus now s)
            \<longleftrightarrow> (last_daily_claim u = 0 \<or> now - last_daily_claim u \<ge> 86400000))
         \<and> (last_daily_claim u = 0 \<longrightarrow> shows_CLAIMABLE (checkDailyBonus now s))
         \<and> (now - last_daily_claim u = 86400000 \<longrightarrow> shows_CLAIMABLE (checkDailyBonus now s))"
  using assms
  by (auto simp add: checkDailyBonus_def shows_CLAIMABLE_def ONE_DAY_def classList_add_def Let_def)

theorem checkDailyBonus_claimable_iff_witness:
  "userData (dashboard 1699913600000)
     = Some \<lparr>balance = 1000, daily_streak = 3, last_daily_claim = 1699913600000\<rparr>
   \<and> claim_daily_btn (dashboard 1699913600000) = Some fresh_button
   \<and> shows_CLAIMABLE (checkDailyBonus 1700000000000 (dashboard 1699913600000))
   \<and> \<not> shows_CLAIMABLE (checkDailyBonus 1699999999999 (dashboard 1699913600000))"
proof -
  have h1: "userData (dashboard 1699913600000)
              = Some \<lparr>balance = 1000, daily_streak = 3, last_daily_claim = 1699913600000\<rparr>"
    by (simp add: dashboard_def)
  have h2: "claim_daily_btn (dashboard 1699913600000) = Some fresh_button"
    by (simp add: dashboard_def)
  show ?thesis
    using h1 h2 checkDailyBonus_claimable_iff [OF h1 h2, of 1700000000000]
      checkDailyBonus_claimable_iff [OF h1 h2, of 1699999999999]
    by simp
qed


section \<open>The countdown during the cooldown\<close>

text \<open>
  C2, as stated, fails for a user who never claimed: with the sentinel \<open>0\<close> as last
  claim and \<open>now = 1000\<close> the difference lies strictly between 0 and 86 400 000, and
  the control is claimable, not in cooldown.
\<close>

theorem checkDailyBonus_sentinel_counterexample:
  "userData (dashboard 0) = Some \<lparr>balance = 1000, daily_streak = 3, last_daily_claim = 0\<rparr>
   \<and> claim_daily_btn (dashboard 0) = Some fresh_button
   \<and> 0 < (1000::int) - 0 \<and> (1000::int) - 0 < 86400000
   \<and> \<not> shows_COOLDOWN (checkDailyBonus 1000 (dashboard 0))
   \<and> shows_CLAIMABLE (checkDailyBonus 1000 (dashboard 0))"
  by (simp add: dashboard_def fresh_button_def checkDailyBonus_def shows_COOLDOWN_def
      shows_CLAIMABLE_def classList_add_def ONE_DAY_def)

text \<open>
  C2, amended. On a hydrated dashboard with its claim button, for every \<open>now\<close> and every
  last claim other than the sentinel \<open>0\<close> with \<open>0 < now - lastClaim < 86 400 000\<close>,
  \<^verbatim>\<open>checkDailyBonus\<close> disables the control and shows the countdown whose hours,
  minutes and seconds are the floor-division buckets of
  \<open>remaining = 86 400 000 - (now - lastClaim)\<close>: none is negative, and
  \<open>hours * 3 600 000 + minutes * 60 000 + seconds * 1000 \<le> remaining\<close>, which in turn
  is less than that sum plus 1000.
\<close>

theorem checkDailyBonus_cooldown_countdown:
  assumes "userData s = Some u" and "claim_daily_btn s = Some btn"
    and "last_daily_claim u \<noteq> 0"
    and "0 < now - last_daily_claim u" and "now - last_daily_claim u < 86400000"
  shows "\<exists>remaining hours minutes seconds.
           remaining = 86400000 - (now - last_daily_claim u)
           \<and> shows_COOLDOWN (checkDailyBonus now s)
           \<and> shows_countdown hours minutes seconds (checkDailyBonus now s)
           \<and> hours = remaining div 3600000
           \<and> minutes = (remaining mod 3600000) div 60000
           \<and> seconds = (remaining mod 60000) div 1000
           \<and> 0 \<le> hours \<and> 0 \<le> minutes \<and> 0 \<le> seconds
           \<and> hours * 3600000 + minutes * 60000 + seconds * 1000 \<le> remaining
           \<and> remaining < hours * 3600000 + minutes * 60000 + seconds * 1000 + 1000"
proof -
  define remaining where "remaining = 86400000 - (now - last_daily_claim u)"
  have pos: "0 \<le> remaining"
    using assms(5) by (simp add: remaining_def)
  have shown: "shows_COOLDOWN (checkDailyBonus now s)
      \<and> shows_countdown (countdown_hours remaining) (countdown_minutes remaining)
          (countdown_seconds remaining) (checkDailyBonus now s)"
    unfolding remaining_def checkDailyBonus_cooldown [OF assms(1,2,3,5)]
    by (simp add: shows_COOLDOWN_def shows_countdown_def)
  have "0 \<le> remaining mod 1000" and "remaining mod 1000 < 1000"
    by simp_all
  then have "countdown_hours remaining * 3600000 + countdown_minutes remaining * 60000
               + countdown_seconds remaining * 1000 \<le> remaining"
    and "remaining < countdown_hours remaining * 3600000 + countdown_minutes remaining * 60000
               + countdown_seconds remaining * 1000 + 1000"
    unfolding countdown_sum [OF pos] by linarith+
  then show ?thesis
    using shown countdown_nonneg [OF pos] countdown_unfold [OF pos] remaining_def
    by metis
qed

theorem checkDailyBonus_cooldown_countdown_witness:
  "userData (dashboard 1699996338500)
     = Some \<lparr>balance = 1000, daily_streak = 3, last_daily_claim = 1699996338500\<rparr>
   \<and> claim_daily_btn (dashboard 1699996338500) = Some fresh_button
   \<and> (1699996338500::int) \<noteq> 0
   \<and> 0 < (1700000000000::int) - 1699996338500
   \<and> (1700000000000::int) - 1699996338500 < 86400000
   \<and> shows_COOLDOWN (checkDailyBonus 1700000000000 (dashboard 1699996338500))
   \<and> shows_countdown 22 58 58 (checkDailyBonus 1700000000000 (dashboard 1699996338500))"
proof -
  let ?u = "\<lparr>balance = 1000, daily_streak = 3, last_daily_claim = 1699996338500\<rparr>"
  have h3: "last_daily_claim ?u \<noteq> 0"
    and h4: "0 < 1700000000000 - last_daily_claim ?u"
    and h5: "1700000000000 - last_daily_claim ?u < 86400000"
    by simp_all
  from checkDailyBonus_cooldown_countdown [OF dashboard_userData dashboard_btn h3 h4 h5]
  obtain remaining hours minutes seconds where
    "remaining = 86400000 - (1700000000000 - last_daily_claim ?u)"
    "shows_COOLDOWN (checkDailyBonus 1700000000000 (dashboard 1699996338500))"
    "shows_countdown hours minutes seconds (checkDailyBonus 1700000000000 (dashboard 1699996338500))"
    "hours = remaining div 3600000"
    "minutes = (remaining mod 3600000) div 60000"
    "seconds = (remaining mod 60000) div 1000"
    by blast
  then show ?thesis
    by (simp add: dashboard_userData dashboard_btn)
qed

text \<open>
  C9. Whenever \<^verbatim>\<open>checkDailyBonus\<close> ends in cooldown with
  \<open>0 < now - lastClaim < 86 400 000\<close>, the countdown shown has at most 23 hours, at most
  59 minutes and at most 59 seconds.
\<close>

theorem checkDailyBonus_countdown_bounded:
  assumes "userData s = Some u" and "claim_daily_btn s = Some btn"
    and "shows_COOLDOWN (checkDailyBonus now s)"
    and "0 < now - last_daily_claim u" and "now - last_daily_claim u < 86400000"
  shows "\<exists>remaining hours minutes seconds.
           remaining = 86400000 - (now - last_daily_claim u)
           \<and> shows_countdown hours minutes seconds (checkDailyBonus now s)
           \<and> hours = remaining div 3600000
           \<and> minutes = (remaining mod 3600000) div 60000
           \<and> seconds = (remaining mod 60000) div 1000
           \<and> hours \<le> 23 \<and> minutes \<le> 59 \<and> seconds \<le> 59"
proof -
  define remaining where "remaining = 86400000 - (now - last_daily_claim u)"
  have claimed: "last_daily_claim u \<noteq> 0"
  proof
    assume "last_daily_claim u = 0"
    then have "checkDailyBonus now s =
        s\<lparr>claim_daily_btn :=
             Some (btn\<lparr>disabled := False,
                       classList := classList_add ''ready'' (classList btn),
                       textContent := ''Claim Daily Bonus''\<rparr>)\<rparr>"
      using checkDailyBonus_claimable [OF assms(1,2), of now] by simp
    then show False
      using assms(3) by (simp add: shows_COOLDOWN_def)
  qed
  have pos: "0 \<le> remaining" and small: "remaining < 86400000"
    using assms(4,5) by (simp_all add: remaining_def)
  have "shows_countdown (countdown_hours remaining) (countdown_minutes remaining)
          (countdown_seconds remaining) (checkDailyBonus now s)"
    unfolding remaining_def checkDailyBonus_cooldown [OF assms(1,2) claimed assms(5)]
    by (simp add: shows_countdown_def)
  then show ?thesis
    using countdown_upper [OF pos small] countdown_unfold [OF pos] remaining_def
    by metis
qed

theorem checkDailyBonus_countdown_bounded_witness:
  "userData (dashboard 1699913600001)
     = Some \<lparr>balance = 1000, daily_streak = 3, last_daily_claim = 1699913600001\<rparr>
   \<and> claim_daily_btn (dashboard 1699913600001) = Some fresh_button
   \<and> shows_COOLDOWN (checkDailyBonus 1700000000000 (dashboard 1699913600001))
   \<and> 0 < (1700000000000::int) - 1699913600001
   \<and> (1700000000000::int) - 1699913600001 < 86400000
   \<and> shows_countdown 0 0 0 (checkDailyBonus 1700000000000 (dashboard 1699913600001))"
proof -
  let ?u = "\<lparr>balance = 1000, daily_streak = 3, last_daily_claim = 1699913600001\<rparr>"
  have h3: "shows_COOLDOWN (checkDailyBonus 1700000000000 (dashboard 1699913600001))"
    by (simp add: dashboard_def checkDailyBonus_def shows_COOLDOWN_def ONE_DAY_def)
  have h4: "0 < 1700000000000 - last_daily_claim ?u"
    and h5: "1700000000000 - last_daily_claim ?u < 86400000"
    by simp_all
  from checkDailyBonus_countdown_bounded [OF dashboard_userData dashboard_btn h3 h4 h5]
  obtain remaining hours minutes seconds where
    "remaining = 86400000 - (1700000000000 - last_daily_claim ?u)"
    "shows_countdown hours minutes seconds (checkDailyBonus 1700000000000 (dashboard 1699913600001))"
    "hours = remaining div 3600000"
    "minutes = (remaining mod 3600000) div 60000"
    "seconds = (remaining mod 60000) div 1000"
    by blast
  then show ?thesis
    using h3 by (simp add: dashboard_userData dashboard_btn)
qed

text \<open>
  C7. When the user claimed exactly one hour ago (the last claim is \<open>now - 3 600 000\<close>,
  and a last claim is not \<open>0\<close>, which stands for never claimed),
  \<^verbatim>\<open>checkDailyBonus\<close> disables the control and shows the countdown \<open>23h 0m 0s\<close>:
  the text of the button is \<open>Next Bonus in 23h 0m 0s\<close>.
\<close>

theorem checkDailyBonus_one_hour_ago:
  assumes "userData s = Some u" and "claim_daily_btn s = Some btn"
    and "last_daily_claim u = now - 3600000" and "last_daily_claim u \<noteq> 0"
  shows "shows_COOLDOWN (checkDailyBonus now s)
         \<and> shows_countdown 23 0 0 (checkDailyBonus now s)
         \<and> map_option textContent (claim_daily_btn (checkDailyBonus now s))
             = Some (''Next Bonus in '' @ ''23h 0m 0s'')"
proof -
  have "now - last_daily_claim u < 86400000"
    using assms(3) by simp
  from checkDailyBonus_cooldown [OF assms(1,2,4) this]
  have "checkDailyBonus now s =
          s\<lparr>claim_daily_btn :=
               Some (btn\<lparr>disabled := True,
                         textContent := ''Next Bonus in '' @ countdown_label 23 0 0\<rparr>),
            timers := timers s @ [(1000, CheckDailyBonus)]\<rparr>"
    using assms(3)
    by (simp add: countdown_hours_def countdown_minutes_def countdown_seconds_def
        Math_floor_div_def js_rem_def)
  then show ?thesis
    by (simp add: shows_COOLDOWN_def shows_countdown_def countdown_label_23_0_0)
qed

theorem checkDailyBonus_one_hour_ago_witness:
  "userData (dashboard 1699996400000)
     = Some \<lparr>balance = 1000, daily_streak = 3, last_daily_claim = 1699996400000\<rparr>
   \<and> claim_daily_btn (dashboard 1699996400000) = Some fresh_button
   \<and> (1699996400000::int) = 1700000000000 - 3600000
   \<and> (1699996400000::int) \<noteq> 0
   \<and> shows_COOLDOWN (checkDailyBonus 1700000000000 (dashboard 1699996400000))
   \<and> map_option textContent
        (claim_daily_btn (checkDailyBonus 1700000000000 (dashboard 1699996400000)))
       = Some ''Next Bonus in 23h 0m 0s''"
proof -
  let ?u = "\<lparr>balance = 1000, daily_streak = 3, last_daily_claim = 1699996400000\<rparr>"
  have h3: "last_daily_claim ?u = 1700000000000 - 3600000"
    and h4: "last_daily_claim ?u \<noteq> 0"
    by simp_all
  show ?thesis
    using checkDailyBonus_one_hour_ago [OF dashboard_userData dashboard_btn h3 h4]
    by (simp add: dashboard_userData dashboard_btn)
qed


section \<open>Scheduling and purity of the evaluation\<close>

text \<open>
  C6. A call of \<^verbatim>\<open>checkDailyBonus\<close> that leaves the control claimable schedules
  nothing. A call that schedules anything leaves the control in cooldown and schedules
  exactly one re-evaluation, one second later; and every call that takes the cooldown
  branch does so.
\<close>

theorem checkDailyBonus_tick_only_in_cooldown:
  "(shows_CLAIMABLE (checkDailyBonus now s) \<longrightarrow> timers (checkDailyBonus now s) = timers s)
   \<and> (timers (checkDailyBonus now s) \<noteq> timers s \<longrightarrow>
        shows_COOLDOWN (checkDailyBonus now s)
        \<and> timers (checkDailyBonus now s) = timers s @ [(1000, CheckDailyBonus)])
   \<and> (userData s = Some u \<and> claim_daily_btn s = Some btn
        \<and> \<not> (last_daily_claim u = 0 \<or> now - last_daily_claim u \<ge> 86400000) \<longrightarrow>
        shows_COOLDOWN (checkDailyBonus now s)
        \<and> timers (checkDailyBonus now s) = timers s @ [(1000, CheckDailyBonus)])"
  by (auto simp add: checkDailyBonus_def shows_CLAIMABLE_def shows_COOLDOWN_def ONE_DAY_def
      Let_def split: option.splits)

theorem checkDailyBonus_tick_only_in_cooldown_witness:
  "shows_CLAIMABLE (checkDailyBonus 1700000000000 (dashboard 0))
   \<and> timers (checkDailyBonus 1700000000000 (dashboard 0)) = timers (dashboard 0)
   \<and> shows_COOLDOWN (checkDailyBonus 1700000000000 (dashboard 1699996400000))
   \<and> timers (checkDailyBonus 1700000000000 (dashboard 1699996400000))
       = timers (dashboard 1699996400000) @ [(1000, CheckDailyBonus)]"
proof -
  let ?u = "\<lparr>balance = 1000, daily_streak = 3, last_daily_claim = 1699996400000\<rparr>"
  have ready: "shows_CLAIMABLE (checkDailyBonus 1700000000000 (dashboard 0))"
    by (simp add: dashboard_def fresh_button_def checkDailyBonus_def shows_CLAIMABLE_def
        classList_add_def)
  with checkDailyBonus_tick_only_in_cooldown [of 1700000000000 "dashboard 0"]
  have none: "timers (checkDailyBonus 1700000000000 (dashboard 0)) = timers (dashboard 0)"
    by blast
  have "userData (dashboard 1699996400000) = Some ?u
        \<and> claim_daily_btn (dashboard 1699996400000) = Some fresh_button
        \<and> \<not> (last_daily_claim ?u = 0 \<or> 1700000000000 - last_daily_claim ?u \<ge> 86400000)"
    by (simp add: dashboard_userData dashboard_btn)
  with checkDailyBonus_tick_only_in_cooldown
         [of 1700000000000 "dashboard 1699996400000" ?u fresh_button]
  have "shows_COOLDOWN (checkDailyBonus 1700000000000 (dashboard 1699996400000))
        \<and> timers (checkDailyBonus 1700000000000 (dashboard 1699996400000))
            = timers (dashboard 1699996400000) @ [(1000, CheckDailyBonus)]"
    by blast
  with ready none show ?thesis
    by blast
qed

text \<open>
  C5. \<^verbatim>\<open>checkDailyBonus\<close> never changes \<^verbatim>\<open>userData\<close>; of the page it changes
  only the claim button and the timers, and to the timers it adds at most the one
  countdown refresh. Calling it again with the same \<open>now\<close> leaves the button as the
  first call left it, and two hydrated pages with the same \<^verbatim>\<open>userData\<close> get the
  same mode and label whatever their buttons showed before.
\<close>

theorem checkDailyBonus_pure:
  "userData (checkDailyBonus now s) = userData s
   \<and> checkDailyBonus now s
       = s\<lparr>claim_daily_btn := claim_daily_btn (checkDailyBonus now s),
            timers := timers (checkDailyBonus now s)\<rparr>
   \<and> (timers (checkDailyBonus now s) = timers s
       \<or> timers (checkDailyBonus now s) = timers s @ [(1000, CheckDailyBonus)])
   \<and> claim_daily_btn (checkDailyBonus now (checkDailyBonus now s))
       = claim_daily_btn (checkDailyBonus now s)
   \<and> (userData s = Some u \<and> userData s' = Some u \<and> claim_daily_btn s \<noteq> None \<and> claim_daily_btn s' \<noteq> None \<longrightarrow>
        shown_output (checkDailyBonus now s) = shown_output (checkDailyBonus now s'))"
  by (auto simp add: checkDailyBonus_def shown_output_def classList_add_def Let_def
      split: option.splits)

theorem checkDailyBonus_pure_witness:
  "shown_output (checkDailyBonus 1700000000000 (dashboard 1699996400000))
     = shown_output (checkDailyBonus 1700000000000
         ((dashboard 1699996400000)
            \<lparr>claim_daily_btn := Some \<lparr>disabled = False, classList = [], textContent = []\<rparr>,
             timers := [(1000, CheckDailyBonus)]\<rparr>))
   \<and> shown_output (checkDailyBonus 1700000000000 (dashboard 1699996400000))
       = Some (True, ''Next Bonus in 23h 0m 0s'')"
proof -
  have "shown_output (checkDailyBonus 1700000000000 (dashboard 1699996400000))
          = Some (True, ''Next Bonus in 23h 0m 0s'')"
    using one_hour_ago_output
    by simp
  then show ?thesis
    using checkDailyBonus_pure [of 1700000000000 "dashboard 1699996400000"
        "\<lparr>balance = 1000, daily_streak = 3, last_daily_claim = 1699996400000\<rparr>"
        "(dashboard 1699996400000)
            \<lparr>claim_daily_btn := Some \<lparr>disabled = False, classList = [], textContent = []\<rparr>,
             timers := [(1000, CheckDailyBonus)]\<rparr>"]
    by (simp add: dashboard_userData dashboard_btn)
qed


section \<open>Requests\<close>

text \<open>
  C8, as stated, fails where the body of the response cannot be read, because
  \<^verbatim>\<open>apiCall\<close> awaits \<^verbatim>\<open>response.json()\<close> before it looks at
  \<^verbatim>\<open>response.ok\<close>. An ok response with an empty body does not return: the parser's
  error is thrown. A response that is not ok and whose body is not JSON is thrown with
  the parser's message, which is neither the server's nor \<open>Request failed\<close>.
\<close>

theorem apiCall_unreadable_body_counterexample:
  "\<not> failing ok_no_body
   \<and> fst (apiCall ok_no_body (dashboard 0)) = Inl (SyntaxError ''Unexpected end of JSON input'')
   \<and> failing no_body
   \<and> fst (apiCall no_body (dashboard 0))
       = Inl (SyntaxError ''Unexpected token < in JSON at position 0'')
   \<and> error_message (SyntaxError ''Unexpected token < in JSON at position 0'')
       \<noteq> ''Request failed''"
  by (simp add: failing_def ok_no_body_def no_body_def apiCall_def apiCall_try_def)

text \<open>
  C8, amended. Every failing request through \<^verbatim>\<open>apiCall\<close> (the transport failed, or
  the response is not ok) reaches the caller as a thrown error that is also logged to the
  console, and so does every response whose body is not JSON, ok or not. A rejection by
  \<^verbatim>\<open>fetch\<close> or by \<^verbatim>\<open>json()\<close> is thrown as it is. A response that is not ok
  and has a JSON body is thrown with the server's message when that is a non-empty string
  and with \<open>Request failed\<close> when the message is absent or empty. An ok response with a
  JSON body returns the parsed body and leaves the page alone, and \<^verbatim>\<open>apiCall\<close>
  returns a result only then.
\<close>

theorem apiCall_failure_propagates:
  "(failing outcome \<longrightarrow> (\<exists>e. apiCall outcome s = (Inl e, s\<lparr>console := console s @ [e]\<rparr>)))
   \<and> apiCall (FetchRejected rejection) s
       = (Inl rejection, s\<lparr>console := console s @ [rejection]\<rparr>)
   \<and> apiCall (Response ok (JsonRejected rejection)) s
       = (Inl rejection, s\<lparr>console := console s @ [rejection]\<rparr>)
   \<and> (message result = Some m \<and> m \<noteq> [] \<longrightarrow>
        apiCall (Response False (Json result)) s
          = (Inl (Error m), s\<lparr>console := console s @ [Error m]\<rparr>))
   \<and> (message result = None \<or> message result = Some [] \<longrightarrow>
        apiCall (Response False (Json result)) s
          = (Inl (Error ''Request failed''),
             s\<lparr>console := console s @ [Error ''Request failed'']\<rparr>))
   \<and> apiCall (Response True (Json result)) s = (Inr result, s)
   \<and> (apiCall outcome s = (Inr result', s') \<longrightarrow>
        outcome = Response True (Json result') \<and> s' = s)"
proof (intro conjI impI)
  assume "failing outcome"
  then obtain e where "apiCall_try outcome = Inl e"
    using apiCall_try_failing by blast
  then show "\<exists>e. apiCall outcome s = (Inl e, s\<lparr>console := console s @ [e]\<rparr>)"
    by (simp add: apiCall_def)
next
  show "apiCall (FetchRejected rejection) s
          = (Inl rejection, s\<lparr>console := console s @ [rejection]\<rparr>)"
    by (simp add: apiCall_def apiCall_try_def)
next
  show "apiCall (Response ok (JsonRejected rejection)) s
          = (Inl rejection, s\<lparr>console := console s @ [rejection]\<rparr>)"
    by (simp add: apiCall_def apiCall_try_def)
next
  assume "message result = Some m \<and> m \<noteq> []"
  then show "apiCall (Response False (Json result)) s
          = (Inl (Error m), s\<lparr>console := console s @ [Error m]\<rparr>)"
    by (simp add: apiCall_def apiCall_try_def truthy_def template_string_def)
next
  assume "message result = None \<or> message result = Some []"
  then show "apiCall (Response False (Json result)) s
          = (Inl (Error ''Request failed''),
             s\<lparr>console := console s @ [Error ''Request failed'']\<rparr>)"
    by (auto simp add: apiCall_def apiCall_try_def truthy_def)
next
  show "apiCall (Response True (Json result)) s = (Inr result, s)"
    by (simp add: apiCall_def apiCall_try_def)
next
  assume "apiCall outcome s = (Inr result', s')"
  then show "outcome = Response True (Json result')" and "s' = s"
    by (auto simp add: apiCall_def apiCall_try_def
        split: fetch_outcome.splits body.splits if_splits sum.splits)
qed

theorem apiCall_failure_propagates_witness:
  "failing claim_rejected
   \<and> apiCall claim_rejected (dashboard 0)
       = (Inl (Error ''Already claimed today''),
          (dashboard 0)\<lparr>console := [Error ''Already claimed today'']\<rparr>)
   \<and> apiCall (Response False (Json \<lparr>message = None, new_balance = None, streak = None\<rparr>))
        (dashboard 0)
       = (Inl (Error ''Request failed''), (dashboard 0)\<lparr>console := [Error ''Request failed'']\<rparr>)
   \<and> apiCall claim_succeeded (dashboard 0)
       = (Inr \<lparr>message = Some ''Daily bonus claimed!'', new_balance = Some 1500, streak = Some 4\<rparr>,
          dashboard 0)"
proof -
  let ?rejected = "\<lparr>message = Some ''Already claimed today'', new_balance = None, streak = None\<rparr>"
  let ?silent = "\<lparr>message = None, new_balance = None, streak = None\<rparr>"
  let ?claimed = "\<lparr>message = Some ''Daily bonus claimed!'', new_balance = Some 1500,
                   streak = Some 4\<rparr>"
  have f: "failing claim_rejected"
    by (simp add: failing_def claim_rejected_def)
  have "message ?rejected = Some ''Already claimed today'' \<and> ''Already claimed today'' \<noteq> []"
    by simp
  with apiCall_failure_propagates
         [where result = ?rejected and m = "''Already claimed today''" and s = "dashboard 0"]
  have a: "apiCall (Response False (Json ?rejected)) (dashboard 0)
            = (Inl (Error ''Already claimed today''),
               (dashboard 0)\<lparr>console := console (dashboard 0) @ [Error ''Already claimed today'']\<rparr>)"
    by blast
  have "message ?silent = None \<or> message ?silent = Some []"
    by simp
  with apiCall_failure_propagates [where result = ?silent and s = "dashboard 0"]
  have b: "apiCall (Response False (Json ?silent)) (dashboard 0)
            = (Inl (Error ''Request failed''),
               (dashboard 0)\<lparr>console := console (dashboard 0) @ [Error ''Request failed'']\<rparr>)"
    by blast
  from apiCall_failure_propagates [where result = ?claimed and s = "dashboard 0"]
  have c: "apiCall (Response True (Json ?claimed)) (dashboard 0) = (Inr ?claimed, dashboard 0)"
    by blast
  have empty: "console (dashboard 0) = []"
    by (simp add: dashboard_def)
  show ?thesis
    using f a b c by (simp add: claim_rejected_def claim_succeeded_def empty)
qed


section \<open>Claiming the daily bonus\<close>

text \<open>
  C4, as stated, fails in its last part: the \<^verbatim>\<open>catch\<close> block of
  \<^verbatim>\<open>claimDailyBonus\<close> shows the toast and does nothing else, so a rejected claim
  starts no re-evaluation and no ticking. On a claimable page it leaves the control
  claimable with no countdown tick scheduled. On a page in cooldown it leaves on the
  button the countdown of the last tick, here that of one second earlier, where a
  re-evaluation would show the countdown of the moment.
\<close>

theorem claimDailyBonus_rejected_counterexample:
  "failing claim_rejected
   \<and> shows_CLAIMABLE
        (claimDailyBonus claim_rejected 1700000000000 (checkDailyBonus 1699999999000 (dashboard 0)))
   \<and> pending_ticks
        (claimDailyBonus claim_rejected 1700000000000 (checkDailyBonus 1699999999000 (dashboard 0)))
       = 0
   \<and> shown_output
        (claimDailyBonus claim_rejected 1700000000000
           (checkDailyBonus 1699999999000 (dashboard 1699996400000)))
       = Some (True, ''Next Bonus in 23h 0m 1s'')
   \<and> shown_output
        (checkDailyBonus 1700000000000 (checkDailyBonus 1699999999000 (dashboard 1699996400000)))
       = Some (True, ''Next Bonus in 23h 0m 0s'')"
  by (simp add: failing_def claim_rejected_def claimDailyBonus_def apiCall_def apiCall_try_def
      truthy_def template_string_def showToast_def checkDailyBonus_def dashboard_def
      fresh_button_def classList_add_def shows_CLAIMABLE_def shown_output_def
      pending_ticks_def ONE_DAY_def Let_def countdown_hours_def countdown_minutes_def
      countdown_seconds_def Math_floor_div_def js_rem_def countdown_label_def toString_def
      digits.simps digit_def)

text \<open>
  C4, amended. When the claim request fails, \<^verbatim>\<open>claimDailyBonus\<close> shows the message
  of the thrown error in an error toast (when the page has a toast container) and the
  error is logged; for a rejection whose body carries a non-empty message, that is the
  server's message, unchanged. It leaves \<^verbatim>\<open>userData\<close>, the claim button and the
  balance and streak displays as they were. It neither re-evaluates nor schedules or
  removes a countdown tick: every tick that was scheduled is still scheduled, and when a
  tick runs later it does to the button and to the ticks what it would have done had no
  claim been tried.
\<close>

theorem claimDailyBonus_rejected:
  assumes "failing outcome"
  shows "userData (claimDailyBonus outcome now s) = userData s
         \<and> claim_daily_btn (claimDailyBonus outcome now s) = claim_daily_btn s
         \<and> nav_balance (claimDailyBonus outcome now s) = nav_balance s
         \<and> user_balance (claimDailyBonus outcome now s) = user_balance s
         \<and> daily_streak_el (claimDailyBonus outcome now s) = daily_streak_el s
         \<and> (\<exists>e. fst (apiCall outcome s) = Inl e
                \<and> console (claimDailyBonus outcome now s) = console s @ [e]
                \<and> (\<forall>container. toast_container s = Some container \<longrightarrow>
                      toast_container (claimDailyBonus outcome now s)
                        = Some (container @ [\<lparr>toast_type = error,
                                               toast_message = error_message e\<rparr>]))
                \<and> (\<forall>body m. outcome = Response False (Json body) \<and> message body = Some m
                              \<and> m \<noteq> [] \<longrightarrow> error_message e = m))
         \<and> (timers (claimDailyBonus outcome now s) = timers s
              \<or> timers (claimDailyBonus outcome now s) = timers s @ [(3000, HideToast)])
         \<and> pending_ticks (claimDailyBonus outcome now s) = pending_ticks s
         \<and> (\<forall>later. claim_daily_btn (checkDailyBonus later (claimDailyBonus outcome now s))
                      = claim_daily_btn (checkDailyBonus later s)
                  \<and> pending_ticks (checkDailyBonus later (claimDailyBonus outcome now s))
                      = pending_ticks (checkDailyBonus later s))"
proof -
  obtain e where "apiCall_try outcome = Inl e"
    using apiCall_try_failing [OF assms] by blast
  then have thrown: "fst (apiCall outcome s) = Inl e"
    by (simp add: apiCall_def)
  have run: "claimDailyBonus outcome now s
               = showToast (error_message e) error (s\<lparr>console := console s @ [e]\<rparr>)"
    by (rule claimDailyBonus_throws [OF thrown])
  let ?s1 = "s\<lparr>console := console s @ [e]\<rparr>"
  have fields: "userData (claimDailyBonus outcome now s) = userData s"
    "claim_daily_btn (claimDailyBonus outcome now s) = claim_daily_btn s"
    "nav_balance (claimDailyBonus outcome now s) = nav_balance s"
    "user_balance (claimDailyBonus outcome now s) = user_balance s"
    "daily_streak_el (claimDailyBonus outcome now s) = daily_streak_el s"
    "console (claimDailyBonus outcome now s) = console s @ [e]"
    unfolding run by (simp_all add: showToast_fields)
  have toast: "\<forall>container. toast_container s = Some container \<longrightarrow>
      toast_container (claimDailyBonus outcome now s)
        = Some (container @ [\<lparr>toast_type = error, toast_message = error_message e\<rparr>])"
    unfolding run by (simp add: showToast_def)
  have server: "\<forall>body m. outcome = Response False (Json body) \<and> message body = Some m \<and> m \<noteq> []
      \<longrightarrow> error_message e = m"
    using thrown by (auto simp add: apiCall_def apiCall_try_def truthy_def template_string_def)
  have tm: "timers (claimDailyBonus outcome now s) = timers s
      \<or> timers (claimDailyBonus outcome now s) = timers s @ [(3000, HideToast)]"
    unfolding run using showToast_timers [of "error_message e" error ?s1] by simp
  have ticks: "pending_ticks (claimDailyBonus outcome now s) = pending_ticks s"
    unfolding run by (simp add: showToast_pending_ticks) (simp add: pending_ticks_def)
  have later: "\<forall>later. claim_daily_btn (checkDailyBonus later (claimDailyBonus outcome now s))
                      = claim_daily_btn (checkDailyBonus later s)
                  \<and> pending_ticks (checkDailyBonus later (claimDailyBonus outcome now s))
                      = pending_ticks (checkDailyBonus later s)"
    using fields(1,2) ticks
    by (auto simp add: checkDailyBonus_def pending_ticks_def Let_def split: option.splits)
  show ?thesis
    using fields thrown toast server tm ticks later by blast
qed

theorem claimDailyBonus_rejected_witness:
  "failing claim_rejected
   \<and> userData (claimDailyBonus claim_rejected 1700000000000
                 (checkDailyBonus 1699999999000 (dashboard 1699996400000)))
       = userData (dashboard 1699996400000)
   \<and> toast_container (claimDailyBonus claim_rejected 1700000000000
                 (checkDailyBonus 1699999999000 (dashboard 1699996400000)))
       = Some [\<lparr>toast_type = error, toast_message = ''Already claimed today''\<rparr>]
   \<and> pending_ticks (claimDailyBonus claim_rejected 1700000000000
                 (checkDailyBonus 1699999999000 (dashboard 1699996400000))) = 1"
proof -
  let ?s = "checkDailyBonus 1699999999000 (dashboard 1699996400000)"
  let ?body = "\<lparr>message = Some ''Already claimed today'', new_balance = None, streak = None\<rparr>"
  have f: "failing claim_rejected"
    by (simp add: failing_def claim_rejected_def)
  have r: "claim_rejected = Response False (Json ?body)
           \<and> message ?body = Some ''Already claimed today'' \<and> ''Already claimed today'' \<noteq> []"
    by (simp add: claim_rejected_def)
  have c: "toast_container ?s = Some []"
    by (simp add: checkDailyBonus_def dashboard_def Let_def)
  have p: "pending_ticks ?s = 1"
    by (simp add: checkDailyBonus_def dashboard_def Let_def pending_ticks_def ONE_DAY_def)
  have u: "userData ?s = userData (dashboard 1699996400000)"
    by (rule checkDailyBonus_userData)
  from claimDailyBonus_rejected [OF f, of 1700000000000 ?s]
  obtain e where "userData (claimDailyBonus claim_rejected 1700000000000 ?s) = userData ?s"
    and "\<forall>container. toast_container ?s = Some container \<longrightarrow>
           toast_container (claimDailyBonus claim_rejected 1700000000000 ?s)
             = Some (container @ [\<lparr>toast_type = error, toast_message = error_message e\<rparr>])"
    and "\<forall>body m. claim_rejected = Response False (Json body) \<and> message body = Some m
                   \<and> m \<noteq> [] \<longrightarrow> error_message e = m"
    and "pending_ticks (claimDailyBonus claim_rejected 1700000000000 ?s) = pending_ticks ?s"
    by blast
  then show ?thesis
    using f r c p u by simp
qed

text \<open>
  C3. The claim is that after a successful claim the state is replaced with the last
  claim set to \<open>now\<close>, so that the control goes to cooldown with the full day remaining.
  \<^verbatim>\<open>claimDailyBonus\<close> does call \<^verbatim>\<open>checkDailyBonus\<close> after a success, but it
  never writes \<^verbatim>\<open>userData\<close>: on the dashboard of a user who never claimed, after
  the response \<^verbatim>\<open>{new_balance: 1500, streak: 4}\<close> the balance and streak displays
  are updated, \<^verbatim>\<open>userData\<close> is what it was, the control is still claimable and no
  countdown tick is scheduled. On no path does \<^verbatim>\<open>claimDailyBonus\<close> change
  \<^verbatim>\<open>userData\<close>.
\<close>

theorem claimDailyBonus_success_stays_claimable:
  "shows_CLAIMABLE (claimDailyBonus claim_succeeded 1700000000000 (dashboard 0))
   \<and> \<not> shows_COOLDOWN (claimDailyBonus claim_succeeded 1700000000000 (dashboard 0))
   \<and> pending_ticks (claimDailyBonus claim_succeeded 1700000000000 (dashboard 0)) = 0
   \<and> userData (claimDailyBonus claim_succeeded 1700000000000 (dashboard 0))
       = Some \<lparr>balance = 1000, daily_streak = 3, last_daily_claim = 0\<rparr>
   \<and> user_balance (claimDailyBonus claim_succeeded 1700000000000 (dashboard 0)) = Some ''1,500''
   \<and> daily_streak_el (claimDailyBonus claim_succeeded 1700000000000 (dashboard 0)) = Some ''4''
   \<and> (\<forall>outcome now s. userData (claimDailyBonus outcome now s) = userData s)"
  unfolding claim_succeeded_run
  by (simp add: shows_CLAIMABLE_def shows_COOLDOWN_def pending_ticks_def dashboard_def
      claimDailyBonus_userData)


section \<open>Recent transactions\<close>



end
